theory Spec2Isabelle
  imports Main
begin

section \<open>FalkorDBTools: a shallow embedding of agno/tools/falkordb.py\<close>

text \<open>
  The toolkit class holds a connection handle and a graph name and offers four
  operations. The database client (\<open>FalkorDB\<close>, \<open>select_graph\<close>, \<open>query\<close>) is
  an external library: it is a parameter of the model, a record of three functions
  that may raise and that act on the state of the outside world (the database and the
  connection). Logging calls have no effect on any value and are left out.
\<close>

subsection \<open>Values, exceptions, results\<close>

text \<open>Python values that appear in rows and in the values the operations return.\<close>

datatype pyval =
    PNone
  | PBool bool
  | PInt int
  | PStr string
  | PList "pyval list"
  | PDict "(string \<times> pyval) list"

text \<open>
  Instances of \<open>Exception\<close>: the two the code of the class can raise by itself
  (\<open>int\<close> on a string that is no integer, indexing past the end of a row) and
  whatever the client raises.
\<close>

datatype exn = ValueError | IndexError | ClientError string

text \<open>
  What \<open>graph.query\<close> returns: \<open>header\<close> is \<open>None\<close> or a list of column names,
  \<open>result_set\<close> a list of rows.
\<close>

record query_result =
  header :: "string list option"
  result_set :: "pyval list list"

record conn_params =
  conn_host :: string
  conn_port :: int
  conn_username :: "string option"
  conn_password :: "string option"

text \<open>
  The client library. \<open>connect\<close> is the constructor call
  \<open>FalkorDB(host=, port=, username=, password=)\<close>.
\<close>

record ('db, 'gr, 'w) client =
  connect :: "conn_params \<Rightarrow> 'w \<Rightarrow> (exn + 'db) \<times> 'w"
  select_graph :: "'db \<Rightarrow> string \<Rightarrow> 'w \<Rightarrow> (exn + 'gr) \<times> 'w"
  query :: "'gr \<Rightarrow> string \<Rightarrow> 'w \<Rightarrow> (exn + query_result) \<times> 'w"

datatype tool = ListLabels | ListRelationshipTypes | GetSchema | RunCypherQuery

text \<open>The attributes of an instance: \<open>self.db\<close>, \<open>self.graph_name\<close>, and the
  name and tools handed to the base class.\<close>

record 'db gateway =
  db :: 'db
  graph_name :: string
  name :: string
  tools :: "tool list"

record init_args =
  arg_host :: "string option"
  arg_port :: "int option"
  arg_username :: "string option"
  arg_password :: "string option"
  arg_graph_name :: "string option"
  enable_list_labels :: bool
  enable_list_relationships :: bool
  enable_get_schema :: bool
  enable_run_cypher :: bool
  arg_all :: bool

subsection \<open>Python built-ins used by the class\<close>

text \<open>\<open>xs[i]\<close> for a non-negative index: \<open>IndexError\<close> past the end.\<close>

definition getitem :: "'a list \<Rightarrow> nat \<Rightarrow> exn + 'a" where
  "getitem xs i = (if i < length xs then Inr (xs ! i) else Inl IndexError)"

text \<open>\<open>d[k] = v\<close> on a dict kept as an association list in insertion order: a key that
  is present keeps its place and takes the new value.\<close>

fun dict_setitem :: "('k \<times> 'v) list \<Rightarrow> 'k \<Rightarrow> 'v \<Rightarrow> ('k \<times> 'v) list" where
  "dict_setitem [] k v = [(k, v)]"
| "dict_setitem ((k', v') # d) k v =
     (if k' = k then (k', v) # d else (k', v') # dict_setitem d k v)"

text \<open>Truthiness of an optional string and of an optional integer, as \<open>or\<close> tests it:
  \<open>None\<close>, the empty string and \<open>0\<close> are false.\<close>

fun truthy_str :: "string option \<Rightarrow> bool" where
  "truthy_str None = False"
| "truthy_str (Some s) = (s \<noteq> [])"

fun truthy_int :: "int option \<Rightarrow> bool" where
  "truthy_int None = False"
| "truthy_int (Some n) = (n \<noteq> 0)"

text \<open>\<open>os.getenv(key, default)\<close> on the environment, a map from names to strings.\<close>

definition getenv :: "(string \<rightharpoonup> string) \<Rightarrow> string \<Rightarrow> string \<Rightarrow> string" where
  "getenv env key dflt = (case env key of Some v \<Rightarrow> v | None \<Rightarrow> dflt)"

text \<open>
  \<open>int(s)\<close> on a string of ASCII characters: surrounding whitespace (the space and
  the characters \<open>0x09\<close> to \<open>0x0D\<close>) is dropped, one sign is allowed, then decimal
  digits, single underscores allowed between digits. Anything else is a
  \<open>ValueError\<close>, and so is a literal of more than 4300 digits, the interpreter's
  default cap. (Characters outside ASCII are outside this model.)
\<close>

definition is_space :: "char \<Rightarrow> bool" where
  "is_space c = (let n = (of_char c :: nat) in n = 32 \<or> (9 \<le> n \<and> n \<le> 13))"

definition digit_val :: "char \<Rightarrow> nat option" where
  "digit_val c = (let n = (of_char c :: nat) in if 48 \<le> n \<and> n \<le> 57 then Some (n - 48) else None)"

definition strip :: "string \<Rightarrow> string" where
  "strip s = dropWhile is_space (rev (dropWhile is_space (rev s)))"

fun parse_digits :: "nat \<Rightarrow> bool \<Rightarrow> string \<Rightarrow> nat option" where
  "parse_digits acc prev [] = (if prev then Some acc else None)"
| "parse_digits acc prev (c # cs) =
     (if c = CHR ''_'' then (if prev \<and> cs \<noteq> [] then parse_digits acc False cs else None)
      else (case digit_val c of
              None \<Rightarrow> None
            | Some d \<Rightarrow> parse_digits (10 * acc + d) True cs))"

text \<open>The number of digits of a literal, which the interpreter caps (at 4300 unless it
  is configured otherwise).\<close>

definition digit_count :: "string \<Rightarrow> nat" where
  "digit_count s = length (filter (\<lambda>c. digit_val c \<noteq> None) s)"

definition py_int :: "string \<Rightarrow> exn + int" where
  "py_int s =
     (case strip s of
        [] \<Rightarrow> Inl ValueError
      | c # cs \<Rightarrow>
          (case (if c = CHR ''-'' then map_option (\<lambda>n. - int n) (parse_digits 0 False cs)
                 else if c = CHR ''+'' then map_option int (parse_digits 0 False cs)
                 else map_option int (parse_digits 0 False (c # cs))) of
             None \<Rightarrow> Inl ValueError
           | Some n \<Rightarrow> (if 4300 < digit_count (c # cs) then Inl ValueError else Inr n)))"

subsection \<open>Sequencing, raising and catching\<close>

text \<open>A statement sequence is a function from the state to an outcome (a raised
  exception or a value) and the state after it.\<close>

definition bind_x :: "('s \<Rightarrow> (exn + 'a) \<times> 's) \<Rightarrow> ('a \<Rightarrow> 's \<Rightarrow> (exn + 'b) \<times> 's) \<Rightarrow> 's \<Rightarrow> (exn + 'b) \<times> 's" where
  "bind_x m f s = (case m s of (Inl e, s') \<Rightarrow> (Inl e, s') | (Inr a, s') \<Rightarrow> f a s')"

text \<open>A computation with no effect on the state: its outcome is given.\<close>

definition lift_x :: "exn + 'a \<Rightarrow> 's \<Rightarrow> (exn + 'a) \<times> 's" where
  "lift_x r s = (r, s)"

text \<open>\<open>try: body  except Exception: return v\<close>.\<close>

definition try_except :: "('s \<Rightarrow> (exn + 'a) \<times> 's) \<Rightarrow> 'a \<Rightarrow> 's \<Rightarrow> (exn + 'a) \<times> 's" where
  "try_except body v s = (case body s of (Inl e, s') \<Rightarrow> (Inr v, s') | (Inr a, s') \<Rightarrow> (Inr a, s'))"

text \<open>A call into the client from a method: the state of a method is the instance
  and the world; the client sees and changes the world only.\<close>

definition call :: "('w \<Rightarrow> (exn + 'a) \<times> 'w) \<Rightarrow> 'g \<times> 'w \<Rightarrow> (exn + 'a) \<times> ('g \<times> 'w)" where
  "call f s = (case f (snd s) of (r, w') \<Rightarrow> (r, (fst s, w')))"

text \<open>Reading an attribute of \<open>self\<close>.\<close>

definition read_self :: "('g \<Rightarrow> 'a) \<Rightarrow> 'g \<times> 'w \<Rightarrow> (exn + 'a) \<times> ('g \<times> 'w)" where
  "read_self f s = (Inr (f (fst s)), s)"

subsection \<open>Construction\<close>

text \<open>Lines 47 to 50 of \<open>__init__\<close>: the four arguments of the connection. Only the
  port can raise, when the environment is consulted and holds no integer.\<close>

definition connection_params :: "init_args \<Rightarrow> (string \<rightharpoonup> string) \<Rightarrow> exn + conn_params" where
  "connection_params args env =
     (let host = (if truthy_str (arg_host args) then the (arg_host args)
                  else getenv env ''FALKORDB_HOST'' ''localhost'')
      in case (if truthy_int (arg_port args) then Inr (the (arg_port args))
               else py_int (getenv env ''FALKORDB_PORT'' ''6379'')) of
           Inl e \<Rightarrow> Inl e
         | Inr port \<Rightarrow>
             (let username = (if truthy_str (arg_username args) then arg_username args
                              else env ''FALKORDB_USERNAME'');
                  password = (if truthy_str (arg_password args) then arg_password args
                              else env ''FALKORDB_PASSWORD'')
              in Inr \<lparr>conn_host = host, conn_port = port,
                      conn_username = username, conn_password = password\<rparr>))"

text \<open>Lines 63 to 71: the list of methods handed to the base class.\<close>

definition enabled_tools :: "init_args \<Rightarrow> tool list" where
  "enabled_tools args =
     (if arg_all args \<or> enable_list_labels args then [ListLabels] else []) @
     (if arg_all args \<or> enable_list_relationships args then [ListRelationshipTypes] else []) @
     (if arg_all args \<or> enable_get_schema args then [GetSchema] else []) @
     (if arg_all args \<or> enable_run_cypher args then [RunCypherQuery] else [])"

text \<open>Modelled from the spec: \<open>Toolkit.__init__\<close> of \<open>agno.tools\<close>, the registration
  host, is not part of the sources at hand. By the spec it accepts a toolkit name and a
  bundle of callables and exposes them; here it stores both on the instance.\<close>

definition Toolkit_init :: "string \<Rightarrow> tool list \<Rightarrow> 'db gateway \<Rightarrow> 'db gateway" where
  "Toolkit_init nm ts self = self\<lparr>name := nm, tools := ts\<rparr>"

text \<open>\<open>FalkorDBTools.__init__\<close>. The handler of the connection attempt logs and
  re-raises, so a failed connection is the outcome of the whole constructor.\<close>

definition init :: "('db, 'gr, 'w) client \<Rightarrow> init_args \<Rightarrow> (string \<rightharpoonup> string) \<Rightarrow> 'w \<Rightarrow> (exn + 'db gateway) \<times> 'w" where
  "init cl args env =
     bind_x (lift_x (connection_params args env)) (\<lambda>params.
     bind_x (connect cl params) (\<lambda>handle.
     lift_x (Inr (Toolkit_init ''falkordb_tools'' (enabled_tools args)
        \<lparr>db = handle,
         graph_name = (if truthy_str (arg_graph_name args) then the (arg_graph_name args)
                       else getenv env ''FALKORDB_GRAPH'' ''agno''),
         name = [], tools = []\<rparr>))))"

subsection \<open>The four operations\<close>

text \<open>The comprehension \<open>[record[0] for record in rows]\<close>: it stops at the first
  row that has no first element.\<close>

fun first_columns :: "pyval list list \<Rightarrow> exn + pyval list" where
  "first_columns [] = Inr []"
| "first_columns (record # rest) =
     (case getitem record 0 of
        Inl e \<Rightarrow> Inl e
      | Inr v \<Rightarrow> (case first_columns rest of Inl e \<Rightarrow> Inl e | Inr vs \<Rightarrow> Inr (v # vs)))"

text \<open>The two statements the three introspecting operations share: the query, then
  the comprehension over its rows.\<close>

definition introspect :: "('db, 'gr, 'w) client \<Rightarrow> 'gr \<Rightarrow> string \<Rightarrow> 'db gateway \<times> 'w \<Rightarrow> (exn + pyval list) \<times> ('db gateway \<times> 'w)" where
  "introspect cl graph q =
     bind_x (call (query cl graph q)) (\<lambda>result.
     lift_x (first_columns (result_set result)))"

definition list_labels :: "('db, 'gr, 'w) client \<Rightarrow> 'db gateway \<times> 'w \<Rightarrow> (exn + pyval) \<times> ('db gateway \<times> 'w)" where
  "list_labels cl =
     try_except
       (bind_x (read_self db) (\<lambda>d.
        bind_x (read_self graph_name) (\<lambda>gn.
        bind_x (call (select_graph cl d gn)) (\<lambda>graph.
        bind_x (introspect cl graph ''CALL db.labels()'') (\<lambda>labels.
        lift_x (Inr (PList labels)))))))
       (PList [])"

definition list_relationship_types :: "('db, 'gr, 'w) client \<Rightarrow> 'db gateway \<times> 'w \<Rightarrow> (exn + pyval) \<times> ('db gateway \<times> 'w)" where
  "list_relationship_types cl =
     try_except
       (bind_x (read_self db) (\<lambda>d.
        bind_x (read_self graph_name) (\<lambda>gn.
        bind_x (call (select_graph cl d gn)) (\<lambda>graph.
        bind_x (introspect cl graph ''CALL db.relationshipTypes()'') (\<lambda>types.
        lift_x (Inr (PList types)))))))
       (PList [])"

definition get_schema :: "('db, 'gr, 'w) client \<Rightarrow> 'db gateway \<times> 'w \<Rightarrow> (exn + pyval) \<times> ('db gateway \<times> 'w)" where
  "get_schema cl =
     try_except
       (bind_x (read_self db) (\<lambda>d.
        bind_x (read_self graph_name) (\<lambda>gn.
        bind_x (call (select_graph cl d gn)) (\<lambda>graph.
        bind_x (introspect cl graph ''CALL db.labels()'') (\<lambda>labels.
        bind_x (introspect cl graph ''CALL db.relationshipTypes()'') (\<lambda>rel_types.
        lift_x (Inr (PList [PDict [(''labels'', PList labels),
                                   (''relationshipTypes'', PList rel_types)]]))))))))
       (PList [])"

text \<open>The inner loop of \<open>run_cypher_query\<close> over \<open>enumerate(result.header)\<close>.\<close>

fun row_dict_loop :: "(nat \<times> string) list \<Rightarrow> pyval list \<Rightarrow> (string \<times> pyval) list \<Rightarrow> exn + (string \<times> pyval) list" where
  "row_dict_loop [] record row_dict = Inr row_dict"
| "row_dict_loop ((i, column_name) # rest) record row_dict =
     (case getitem record i of
        Inl e \<Rightarrow> Inl e
      | Inr v \<Rightarrow> row_dict_loop rest record (dict_setitem row_dict column_name v))"

text \<open>The outer loop over \<open>result.result_set\<close>, appending to \<open>data\<close>.\<close>

fun data_loop :: "string list \<Rightarrow> pyval list list \<Rightarrow> pyval list \<Rightarrow> exn + pyval list" where
  "data_loop hdr [] data = Inr data"
| "data_loop hdr (record # rest) data =
     (case row_dict_loop (enumerate 0 hdr) record [] of
        Inl e \<Rightarrow> Inl e
      | Inr row_dict \<Rightarrow> data_loop hdr rest (data @ [PDict row_dict]))"

text \<open>\<open>if result.header:\<close> holds for a header that is a non-empty list.\<close>

fun truthy_header :: "string list option \<Rightarrow> bool" where
  "truthy_header None = False"
| "truthy_header (Some h) = (h \<noteq> [])"

definition convert_result :: "query_result \<Rightarrow> exn + pyval" where
  "convert_result result =
     (if truthy_header (header result)
      then (case data_loop (the (header result)) (result_set result) [] of
              Inl e \<Rightarrow> Inl e
            | Inr data \<Rightarrow> Inr (PList data))
      else Inr (PList (map PList (result_set result))))"

definition run_cypher_query :: "('db, 'gr, 'w) client \<Rightarrow> string \<Rightarrow> 'db gateway \<times> 'w \<Rightarrow> (exn + pyval) \<times> ('db gateway \<times> 'w)" where
  "run_cypher_query cl q =
     try_except
       (bind_x (read_self db) (\<lambda>d.
        bind_x (read_self graph_name) (\<lambda>gn.
        bind_x (call (select_graph cl d gn)) (\<lambda>graph.
        bind_x (call (query cl graph q)) (\<lambda>result.
        lift_x (convert_result result))))))
       (PList [])"

subsection \<open>The spec's rules, for comparison with the code\<close>




text \<open>The capability flag that belongs to each operation.\<close>

fun tool_flag :: "init_args \<Rightarrow> tool \<Rightarrow> bool" where
  "tool_flag args ListLabels = enable_list_labels args"
| "tool_flag args ListRelationshipTypes = enable_list_relationships args"
| "tool_flag args GetSchema = enable_get_schema args"
| "tool_flag args RunCypherQuery = enable_run_cypher args"

text \<open>The client raises while an operation that issues the one query \<open>q\<close> runs:
  in \<open>select_graph\<close>, or in \<open>query\<close>.\<close>

definition client_raises :: "('db, 'gr, 'w) client \<Rightarrow> 'db gateway \<times> 'w \<Rightarrow> string \<Rightarrow> bool" where
  "client_raises cl s q =
     (case select_graph cl (db (fst s)) (graph_name (fst s)) (snd s) of
        (Inl e, w1) \<Rightarrow> True
      | (Inr graph, w1) \<Rightarrow> isl (fst (query cl graph q w1)))"

text \<open>The client raises while \<open>get_schema\<close> runs: in \<open>select_graph\<close>, in the label
  query, or in the relationship-type query that follows it.\<close>

definition schema_client_raises :: "('db, 'gr, 'w) client \<Rightarrow> 'db gateway \<times> 'w \<Rightarrow> bool" where
  "schema_client_raises cl s =
     (case select_graph cl (db (fst s)) (graph_name (fst s)) (snd s) of
        (Inl e, w1) \<Rightarrow> True
      | (Inr graph, w1) \<Rightarrow>
          (case query cl graph ''CALL db.labels()'' w1 of
             (Inl e, w2) \<Rightarrow> True
           | (Inr r, w2) \<Rightarrow> isl (fst (query cl graph ''CALL db.relationshipTypes()'' w2))))"

subsection \<open>Concrete clients and inputs\<close>

text \<open>A client in the manner of the unit tests' mocks: the connection succeeds and
  hands back its parameters as the handle, \<open>select_graph\<close> hands back the graph name,
  and \<open>query\<close> answers from a table. The world counts the queries issued.\<close>

definition mock_client :: "(string \<Rightarrow> exn + query_result) \<Rightarrow> (conn_params, string, nat) client" where
  "mock_client answer =
     \<lparr>connect = (\<lambda>p w. (Inr p, w)),
      select_graph = (\<lambda>d gn w. (Inr gn, w)),
      query = (\<lambda>gr q w. (answer q, Suc w))\<rparr>"

text \<open>The same client over a database that queries leave as it is.\<close>

definition static_client :: "(string \<Rightarrow> exn + query_result) \<Rightarrow> (conn_params, string, nat) client" where
  "static_client answer =
     \<lparr>connect = (\<lambda>p w. (Inr p, w)),
      select_graph = (\<lambda>d gn w. (Inr gn, w)),
      query = (\<lambda>gr q w. (answer q, w))\<rparr>"

definition refusing_client :: "(conn_params, string, nat) client" where
  "refusing_client =
     \<lparr>connect = (\<lambda>p w. (Inl (ClientError ''Connection error''), w)),
      select_graph = (\<lambda>d gn w. (Inr gn, w)),
      query = (\<lambda>gr q w. (Inl (ClientError ''Query failed''), w))\<rparr>"

definition rows_only :: "pyval list list \<Rightarrow> query_result" where
  "rows_only rows = \<lparr>header = None, result_set = rows\<rparr>"

definition movie_db :: "string \<Rightarrow> exn + query_result" where
  "movie_db q =
     (if q = ''CALL db.labels()'' then Inr (rows_only [[PStr ''Person''], [PStr ''Movie'']])
      else if q = ''CALL db.relationshipTypes()''
           then Inr (rows_only [[PStr ''ACTED_IN''], [PStr ''DIRECTED'']])
      else Inr \<lparr>header = Some [''name'', ''age''],
                result_set = [[PStr ''John'', PInt 30], [PStr ''Jane'', PInt 25]]\<rparr>)"

definition failing_db :: "string \<Rightarrow> exn + query_result" where
  "failing_db q = Inl (ClientError ''Query failed'')"

definition rel_failing_db :: "string \<Rightarrow> exn + query_result" where
  "rel_failing_db q =
     (if q = ''CALL db.labels()'' then Inr (rows_only [[PStr ''Person''], [PStr ''Movie'']])
      else Inl (ClientError ''Schema query failed''))"

definition ragged_db :: "string \<Rightarrow> exn + query_result" where
  "ragged_db q =
     (if q = ''CALL db.labels()'' then Inr (rows_only [[PStr ''Person''], []])
      else if q = ''CALL db.relationshipTypes()'' then Inr (rows_only [[PStr ''KNOWS'']])
      else Inr \<lparr>header = Some [''name'', ''age''],
                result_set = [[PStr ''John'', PInt 30], [PStr ''Jane'']]\<rparr>)"

definition wide_db :: "string \<Rightarrow> exn + query_result" where
  "wide_db q =
     Inr \<lparr>header = Some [''name'', ''age''],
          result_set = [[PStr ''John'', PInt 30, PBool True], [PStr ''Jane'', PInt 25]]\<rparr>"

text \<open>A result whose header is the empty list, and one whose header repeats a name.\<close>

definition empty_header_db :: "string \<Rightarrow> exn + query_result" where
  "empty_header_db q = Inr \<lparr>header = Some [], result_set = [[PInt 1], [PInt 2]]\<rparr>"

definition repeated_name_db :: "string \<Rightarrow> exn + query_result" where
  "repeated_name_db q =
     Inr \<lparr>header = Some [''a'', ''b'', ''a''], result_set = [[PInt 1, PInt 2, PInt 3]]\<rparr>"

definition count_db :: "string \<Rightarrow> exn + query_result" where
  "count_db q = Inr (rows_only [[PInt 1], [PInt 2], [PInt 3]])"

definition default_args :: init_args where
  "default_args =
     \<lparr>arg_host = None, arg_port = None, arg_username = None, arg_password = None,
      arg_graph_name = None, enable_list_labels = True, enable_list_relationships = True,
      enable_get_schema = True, enable_run_cypher = True, arg_all = False\<rparr>"

definition local_params :: conn_params where
  "local_params =
     \<lparr>conn_host = ''localhost'', conn_port = 6379, conn_username = None, conn_password = None\<rparr>"

definition local_gateway :: "conn_params gateway" where
  "local_gateway =
     \<lparr>db = local_params, graph_name = ''agno'', name = ''falkordb_tools'',
      tools = [ListLabels, ListRelationshipTypes, GetSchema, RunCypherQuery]\<rparr>"

text \<open>Arguments with every capability flag off, and the same with \<open>all=True\<close>.\<close>

definition no_tools_args :: init_args where
  "no_tools_args =
     default_args\<lparr>enable_list_labels := False, enable_list_relationships := False,
       enable_get_schema := False, enable_run_cypher := False\<rparr>"

definition all_flag_args :: init_args where
  "all_flag_args = no_tools_args\<lparr>arg_all := True\<rparr>"

text \<open>An environment in the manner of the unit tests, arguments that give a host and a
  graph name, arguments that give the port \<open>0\<close>, and environments that set the port.\<close>

definition test_env :: "string \<rightharpoonup> string" where
  "test_env =
     [''FALKORDB_HOST'' \<mapsto> ''test-host'', ''FALKORDB_PORT'' \<mapsto> ''7000'',
      ''FALKORDB_USERNAME'' \<mapsto> ''test_user'', ''FALKORDB_PASSWORD'' \<mapsto> ''test_pass'']"

definition custom_args :: init_args where
  "custom_args = default_args\<lparr>arg_host := Some ''db.internal'', arg_graph_name := Some ''custom_graph''\<rparr>"

definition zero_port_args :: init_args where
  "zero_port_args = default_args\<lparr>arg_port := Some 0\<rparr>"

definition port_env :: "string \<rightharpoonup> string" where
  "port_env = [''FALKORDB_PORT'' \<mapsto> ''7000'']"

definition bad_port_env :: "string \<rightharpoonup> string" where
  "bad_port_env = [''FALKORDB_PORT'' \<mapsto> ''abc'']"

section \<open>Properties\<close>

subsection \<open>Unfolding the operations\<close>

lemmas prog_defs = bind_x_def lift_x_def try_except_def call_def read_self_def

lemma getitem_0: "getitem row 0 = (case row of [] \<Rightarrow> Inl IndexError | v # _ \<Rightarrow> Inr v)"
  by (cases row) (simp_all add: getitem_def)

lemma first_columns_ok:
  "\<forall>row\<in>set rows. row \<noteq> [] \<Longrightarrow> first_columns rows = Inr (map hd rows)"
  by (induction rows) (auto simp: getitem_0 split: list.splits)

lemma first_columns_fail:
  "[] \<in> set rows \<Longrightarrow> first_columns rows = Inl IndexError"
  by (induction rows) (auto simp: getitem_0 split: sum.splits list.splits)

lemma first_columns_cases:
  "first_columns rows = (if [] \<in> set rows then Inl IndexError else Inr (map hd rows))"
  using first_columns_ok [of rows] first_columns_fail [of rows] by auto

lemma introspect_eval:
  "introspect cl graph q (g, w) =
     (case query cl graph q w of
        (Inl e, w') \<Rightarrow> (Inl e, (g, w'))
      | (Inr res, w') \<Rightarrow> (first_columns (result_set res), (g, w')))"
  by (simp add: introspect_def prog_defs split: prod.splits sum.splits)

lemma list_labels_eval:
  "list_labels cl (g, w) =
     (case select_graph cl (db g) (graph_name g) w of
        (Inl e, w1) \<Rightarrow> (Inr (PList []), (g, w1))
      | (Inr graph, w1) \<Rightarrow>
          (case introspect cl graph ''CALL db.labels()'' (g, w1) of
             (Inl e, s) \<Rightarrow> (Inr (PList []), s)
           | (Inr labels, s) \<Rightarrow> (Inr (PList labels), s)))"
  by (simp add: list_labels_def prog_defs split: prod.splits sum.splits)

lemma list_relationship_types_eval:
  "list_relationship_types cl (g, w) =
     (case select_graph cl (db g) (graph_name g) w of
        (Inl e, w1) \<Rightarrow> (Inr (PList []), (g, w1))
      | (Inr graph, w1) \<Rightarrow>
          (case introspect cl graph ''CALL db.relationshipTypes()'' (g, w1) of
             (Inl e, s) \<Rightarrow> (Inr (PList []), s)
           | (Inr types, s) \<Rightarrow> (Inr (PList types), s)))"
  by (simp add: list_relationship_types_def prog_defs split: prod.splits sum.splits)

lemma get_schema_eval:
  "get_schema cl (g, w) =
     (case select_graph cl (db g) (graph_name g) w of
        (Inl e, w1) \<Rightarrow> (Inr (PList []), (g, w1))
      | (Inr graph, w1) \<Rightarrow>
          (case introspect cl graph ''CALL db.labels()'' (g, w1) of
             (Inl e, s) \<Rightarrow> (Inr (PList []), s)
           | (Inr labels, s) \<Rightarrow>
               (case introspect cl graph ''CALL db.relationshipTypes()'' s of
                  (Inl e, s') \<Rightarrow> (Inr (PList []), s')
                | (Inr rel_types, s') \<Rightarrow>
                    (Inr (PList [PDict [(''labels'', PList labels),
                                        (''relationshipTypes'', PList rel_types)]]), s'))))"
  by (simp add: get_schema_def prog_defs split: prod.splits sum.splits)

lemma run_cypher_query_eval:
  "run_cypher_query cl q (g, w) =
     (case select_graph cl (db g) (graph_name g) w of
        (Inl e, w1) \<Rightarrow> (Inr (PList []), (g, w1))
      | (Inr graph, w1) \<Rightarrow>
          (case query cl graph q w1 of
             (Inl e, w2) \<Rightarrow> (Inr (PList []), (g, w2))
           | (Inr res, w2) \<Rightarrow>
               (case convert_result res of
                  Inl e \<Rightarrow> (Inr (PList []), (g, w2))
                | Inr v \<Rightarrow> (Inr v, (g, w2)))))"
  by (simp add: run_cypher_query_def prog_defs split: prod.splits sum.splits)

lemma init_eval:
  "init cl args env w =
     (case connection_params args env of
        Inl e \<Rightarrow> (Inl e, w)
      | Inr p \<Rightarrow>
          (case connect cl p w of
             (Inl e, w') \<Rightarrow> (Inl e, w')
           | (Inr h, w') \<Rightarrow>
               (Inr \<lparr>db = h,
                     graph_name = (if truthy_str (arg_graph_name args) then the (arg_graph_name args)
                                   else getenv env ''FALKORDB_GRAPH'' ''agno''),
                     name = ''falkordb_tools'', tools = enabled_tools args\<rparr>, w')))"
  by (simp add: init_def Toolkit_init_def bind_x_def lift_x_def split: prod.splits sum.splits)

subsection \<open>The loops of the query conversion\<close>

lemma map_of_dict_setitem: "map_of (dict_setitem d k v) = (map_of d)(k \<mapsto> v)"
  by (induction d k v rule: dict_setitem.induct) auto

lemma keys_dict_setitem:
  "map fst (dict_setitem d k v) = (if k \<in> set (map fst d) then map fst d else map fst d @ [k])"
  by (induction d k v rule: dict_setitem.induct) auto

lemma dict_setitem_fresh: "k \<notin> set (map fst d) \<Longrightarrow> dict_setitem d k v = d @ [(k, v)]"
  by (induction d k v rule: dict_setitem.induct) auto

lemma row_dict_loop_short:
  "length record < n + length hdr \<Longrightarrow> hdr \<noteq> [] \<Longrightarrow>
   row_dict_loop (enumerate n hdr) record d = Inl IndexError"
proof (induction hdr arbitrary: n d)
  case Nil
  then show ?case by simp
next
  case (Cons c hdr)
  show ?case
  proof (cases "n < length record")
    case True
    with Cons.prems have "hdr \<noteq> []" and "length record < Suc n + length hdr" by auto
    with Cons.IH [of "Suc n"] True show ?thesis by (simp add: getitem_def)
  next
    case False
    then show ?thesis by (simp add: getitem_def)
  qed
qed

lemma row_dict_loop_ok:
  "n + length hdr \<le> length record \<Longrightarrow>
   \<exists>d'. row_dict_loop (enumerate n hdr) record d = Inr d' \<and>
        map_of d' = (map_of d)(hdr [\<mapsto>] drop n record) \<and>
        set (map fst d') = set (map fst d) \<union> set hdr \<and>
        (distinct (map fst d) \<longrightarrow> distinct (map fst d')) \<and>
        (distinct hdr \<and> set hdr \<inter> set (map fst d) = {} \<longrightarrow>
           d' = d @ zip hdr (drop n record))"
proof (induction hdr arbitrary: n d)
  case Nil
  then show ?case by simp
next
  case (Cons c hdr)
  from Cons.prems have n: "n < length record" and rest: "Suc n + length hdr \<le> length record"
    by simp_all
  from Cons.IH [OF rest, of "dict_setitem d c (record ! n)"]
  obtain d' where
    run: "row_dict_loop (enumerate (Suc n) hdr) record (dict_setitem d c (record ! n)) = Inr d'"
    and mp: "map_of d' = (map_of (dict_setitem d c (record ! n)))(hdr [\<mapsto>] drop (Suc n) record)"
    and ks: "set (map fst d') = set (map fst (dict_setitem d c (record ! n))) \<union> set hdr"
    and ds: "distinct (map fst (dict_setitem d c (record ! n))) \<longrightarrow> distinct (map fst d')"
    and zp: "distinct hdr \<and> set hdr \<inter> set (map fst (dict_setitem d c (record ! n))) = {} \<longrightarrow>
           d' = dict_setitem d c (record ! n) @ zip hdr (drop (Suc n) record)"
    by blast
  have dr: "drop n record = record ! n # drop (Suc n) record"
    using n by (simp add: Cons_nth_drop_Suc)
  have 1: "row_dict_loop (enumerate n (c # hdr)) record d = Inr d'"
    using n run by (simp add: getitem_def)
  have 2: "map_of d' = (map_of d)(c # hdr [\<mapsto>] drop n record)"
    using mp by (simp add: dr map_of_dict_setitem)
  have 3: "set (map fst d') = set (map fst d) \<union> set (c # hdr)"
    using ks by (auto simp: keys_dict_setitem split: if_splits)
  have 4: "distinct (map fst d) \<longrightarrow> distinct (map fst d')"
    using ds by (auto simp: keys_dict_setitem split: if_splits)
  have 5: "distinct (c # hdr) \<and> set (c # hdr) \<inter> set (map fst d) = {} \<longrightarrow>
           d' = d @ zip (c # hdr) (drop n record)"
  proof
    assume a: "distinct (c # hdr) \<and> set (c # hdr) \<inter> set (map fst d) = {}"
    then have fresh: "c \<notin> set (map fst d)" by auto
    then have "map fst (dict_setitem d c (record ! n)) = map fst d @ [c]"
      by (simp add: keys_dict_setitem)
    with a have "distinct hdr \<and> set hdr \<inter> set (map fst (dict_setitem d c (record ! n))) = {}"
      by auto
    with zp have "d' = dict_setitem d c (record ! n) @ zip hdr (drop (Suc n) record)" by blast
    then show "d' = d @ zip (c # hdr) (drop n record)"
      using fresh by (simp add: dr dict_setitem_fresh)
  qed
  from 1 2 3 4 5 show ?case by blast
qed

lemma data_loop_ok:
  "\<forall>row\<in>set rows. length hdr \<le> length row \<Longrightarrow>
   \<exists>recs. data_loop hdr rows data = Inr (data @ map PDict recs) \<and>
     length recs = length rows \<and>
     (\<forall>i<length rows.
        map_of (recs ! i) = [hdr [\<mapsto>] rows ! i] \<and>
        set (map fst (recs ! i)) = set hdr \<and>
        distinct (map fst (recs ! i)) \<and>
        (distinct hdr \<longrightarrow> recs ! i = zip hdr (rows ! i)))"
proof (induction rows arbitrary: data)
  case Nil
  show ?case by simp
next
  case (Cons row rows)
  from Cons.prems have len: "0 + length hdr \<le> length row"
    and rest: "\<forall>r\<in>set rows. length hdr \<le> length r" by simp_all
  from row_dict_loop_ok [OF len, of "[]"]
  obtain d where d: "row_dict_loop (enumerate 0 hdr) row [] = Inr d"
    and dm: "map_of d = [hdr [\<mapsto>] row]"
    and dk: "set (map fst d) = set hdr"
    and dd: "distinct (map fst d)"
    and dz: "distinct hdr \<longrightarrow> d = zip hdr row"
    by auto
  from Cons.IH [OF rest, of "data @ [PDict d]"]
  obtain recs where r: "data_loop hdr rows (data @ [PDict d]) = Inr ((data @ [PDict d]) @ map PDict recs)"
    and rl: "length recs = length rows"
    and ri: "\<forall>i<length rows.
        map_of (recs ! i) = [hdr [\<mapsto>] rows ! i] \<and>
        set (map fst (recs ! i)) = set hdr \<and>
        distinct (map fst (recs ! i)) \<and>
        (distinct hdr \<longrightarrow> recs ! i = zip hdr (rows ! i))"
    by blast
  have 1: "data_loop hdr (row # rows) data = Inr (data @ map PDict (d # recs))"
    using d r by simp
  have 2: "length (d # recs) = length (row # rows)" using rl by simp
  have 3: "\<forall>i<length (row # rows).
        map_of ((d # recs) ! i) = [hdr [\<mapsto>] (row # rows) ! i] \<and>
        set (map fst ((d # recs) ! i)) = set hdr \<and>
        distinct (map fst ((d # recs) ! i)) \<and>
        (distinct hdr \<longrightarrow> (d # recs) ! i = zip hdr ((row # rows) ! i))"
  proof (intro allI impI)
    fix i assume "i < length (row # rows)"
    then show "map_of ((d # recs) ! i) = [hdr [\<mapsto>] (row # rows) ! i] \<and>
        set (map fst ((d # recs) ! i)) = set hdr \<and>
        distinct (map fst ((d # recs) ! i)) \<and>
        (distinct hdr \<longrightarrow> (d # recs) ! i = zip hdr ((row # rows) ! i))"
      using dm dk dd dz ri by (cases i) simp_all
  qed
  from 1 2 3 show ?case by blast
qed

lemma data_loop_short:
  "\<exists>row\<in>set rows. length row < length hdr \<Longrightarrow> data_loop hdr rows data = Inl IndexError"
proof (induction rows arbitrary: data)
  case Nil
  then show ?case by simp
next
  case (Cons row rows)
  show ?case
  proof (cases "length row < length hdr")
    case True
    then have "hdr \<noteq> []" by auto
    with True row_dict_loop_short [of row 0 hdr "[]"] show ?thesis by simp
  next
    case False
    with Cons.prems have ex: "\<exists>r\<in>set rows. length r < length hdr" by auto
    from False have "0 + length hdr \<le> length row" by simp
    from row_dict_loop_ok [OF this, of "[]"]
    obtain d where "row_dict_loop (enumerate 0 hdr) row [] = Inr d" by blast
    with Cons.IH [OF ex] show ?thesis by simp
  qed
qed

subsection \<open>Evaluating the concrete clients\<close>

lemmas arg_defs = default_args_def no_tools_args_def all_flag_args_def custom_args_def
  zero_port_args_def test_env_def port_env_def bad_port_env_def

lemmas int_defs = py_int_def strip_def is_space_def digit_val_def digit_count_def

lemmas mock_defs = mock_client_def static_client_def refusing_client_def rows_only_def
  movie_db_def failing_db_def rel_failing_db_def ragged_db_def wide_db_def count_db_def
  empty_header_db_def repeated_name_db_def
  local_gateway_def local_params_def

subsection \<open>Listing labels and relationship types\<close>

text \<open>
  Claim C5, as amended. When the graph is selected, the introspection query returns,
  and every row it returns has at least one value, \<open>list_labels\<close> and
  \<open>list_relationship_types\<close> return the first value of each row, in row order, as
  one flat list (a list of strings when those values are strings), and pass on the
  state the query left.
\<close>

theorem first_column_listing:
  assumes sel: "select_graph cl (db g) (graph_name g) w = (Inr graph, w1)"
  shows "(query cl graph ''CALL db.labels()'' w1 = (Inr lres, w2) \<and>
          [] \<notin> set (result_set lres) \<longrightarrow>
            list_labels cl (g, w) = (Inr (PList (map hd (result_set lres))), (g, w2))) \<and>
         (query cl graph ''CALL db.relationshipTypes()'' w1 = (Inr rres, w3) \<and>
          [] \<notin> set (result_set rres) \<longrightarrow>
            list_relationship_types cl (g, w) = (Inr (PList (map hd (result_set rres))), (g, w3)))"
  using sel
  by (simp add: list_labels_eval list_relationship_types_eval introspect_eval first_columns_cases)

text \<open>The rows of the unit tests: \<open>[["Person"], ["Movie"]]\<close> gives
  \<open>["Person", "Movie"]\<close>, and likewise for the relationship types.\<close>

theorem first_column_listing_witness:
  "select_graph (mock_client movie_db) (db local_gateway) (graph_name local_gateway) 0 = (Inr ''agno'', 0) \<and>
   query (mock_client movie_db) ''agno'' ''CALL db.labels()'' 0
     = (Inr (rows_only [[PStr ''Person''], [PStr ''Movie'']]), 1) \<and>
   [] \<notin> set (result_set (rows_only [[PStr ''Person''], [PStr ''Movie'']])) \<and>
   list_labels (mock_client movie_db) (local_gateway, 0)
     = (Inr (PList [PStr ''Person'', PStr ''Movie'']), (local_gateway, 1)) \<and>
   query (mock_client movie_db) ''agno'' ''CALL db.relationshipTypes()'' 0
     = (Inr (rows_only [[PStr ''ACTED_IN''], [PStr ''DIRECTED'']]), 1) \<and>
   [] \<notin> set (result_set (rows_only [[PStr ''ACTED_IN''], [PStr ''DIRECTED'']])) \<and>
   list_relationship_types (mock_client movie_db) (local_gateway, 0)
     = (Inr (PList [PStr ''ACTED_IN'', PStr ''DIRECTED'']), (local_gateway, 1))"
proof -
  have sel: "select_graph (mock_client movie_db) (db local_gateway) (graph_name local_gateway) 0
      = (Inr ''agno'', 0::nat)"
    by (simp add: mock_defs)
  have ql: "query (mock_client movie_db) ''agno'' ''CALL db.labels()'' 0
     = (Inr (rows_only [[PStr ''Person''], [PStr ''Movie'']]), 1)"
    by (simp add: mock_defs)
  have qr: "query (mock_client movie_db) ''agno'' ''CALL db.relationshipTypes()'' 0
     = (Inr (rows_only [[PStr ''ACTED_IN''], [PStr ''DIRECTED'']]), 1)"
    by (simp add: mock_defs)
  have nl: "[] \<notin> set (result_set (rows_only [[PStr ''Person''], [PStr ''Movie'']]))"
    by (simp add: rows_only_def)
  have nr: "[] \<notin> set (result_set (rows_only [[PStr ''ACTED_IN''], [PStr ''DIRECTED'']]))"
    by (simp add: rows_only_def)
  from first_column_listing [OF sel, of "rows_only [[PStr ''Person''], [PStr ''Movie'']]" 1
      "rows_only [[PStr ''ACTED_IN''], [PStr ''DIRECTED'']]" 1] ql qr nl nr
  have "list_labels (mock_client movie_db) (local_gateway, 0)
     = (Inr (PList (map hd (result_set (rows_only [[PStr ''Person''], [PStr ''Movie'']])))), (local_gateway, 1))"
    and "list_relationship_types (mock_client movie_db) (local_gateway, 0)
     = (Inr (PList (map hd (result_set (rows_only [[PStr ''ACTED_IN''], [PStr ''DIRECTED'']])))), (local_gateway, 1))"
    by blast+
  with sel ql qr nl nr show ?thesis by (simp add: rows_only_def)
qed

text \<open>
  Claim C5 as stated speaks of every row sequence. With the rows
  \<open>[["Person"], []]\<close> the second row has no first value, indexing it raises
  \<open>IndexError\<close>, the handler catches it, and the first column of the first row is
  not returned either: the result is the empty list.
\<close>

theorem first_column_listing_counterexample:
  "query (mock_client ragged_db) ''agno'' ''CALL db.labels()'' 0
     = (Inr (rows_only [[PStr ''Person''], []]), 1) \<and>
   getitem [PStr ''Person''] 0 = Inr (PStr ''Person'') \<and>
   list_labels (mock_client ragged_db) (local_gateway, 0) = (Inr (PList []), (local_gateway, 1))"
  by (simp add: list_labels_eval introspect_eval getitem_0 mock_defs)

subsection \<open>The instance is only read\<close>

text \<open>
  Claim C10. Each of the four operations hands back the instance it was given: the
  connection handle and the graph name (and the registered tools) are the same after
  the call as before it, whether the call went through or the handler ran.
\<close>

theorem operations_keep_gateway:
  "fst (snd (list_labels cl s)) = fst s \<and>
   fst (snd (list_relationship_types cl s)) = fst s \<and>
   fst (snd (get_schema cl s)) = fst s \<and>
   fst (snd (run_cypher_query cl q s)) = fst s"
proof (cases s)
  case (Pair g w)
  have 1: "fst (snd (list_labels cl (g, w))) = g"
    by (simp add: list_labels_eval introspect_eval split: prod.splits sum.splits)
  have 2: "fst (snd (list_relationship_types cl (g, w))) = g"
    by (simp add: list_relationship_types_eval introspect_eval split: prod.splits sum.splits)
  have 3: "fst (snd (get_schema cl (g, w))) = g"
    by (auto simp add: get_schema_eval introspect_eval split: prod.splits sum.splits)
  have 4: "fst (snd (run_cypher_query cl q (g, w))) = g"
    by (simp add: run_cypher_query_eval split: prod.splits sum.splits)
  from 1 2 3 4 Pair show ?thesis by simp
qed

subsection \<open>Errors at call time\<close>

text \<open>
  Claim C3. None of the four operations raises, whatever the client does. When the
  client raises while an operation runs (in \<open>select_graph\<close> or in a query the
  operation issues), the operation returns the empty list. Construction is the one
  place that raises: a connection the client refuses ends the constructor with the
  client's exception.
\<close>

theorem operations_never_raise:
  "\<not> isl (fst (list_labels cl s)) \<and>
   \<not> isl (fst (list_relationship_types cl s)) \<and>
   \<not> isl (fst (get_schema cl s)) \<and>
   \<not> isl (fst (run_cypher_query cl q s)) \<and>
   (client_raises cl s ''CALL db.labels()'' \<longrightarrow> fst (list_labels cl s) = Inr (PList [])) \<and>
   (client_raises cl s ''CALL db.relationshipTypes()'' \<longrightarrow>
      fst (list_relationship_types cl s) = Inr (PList [])) \<and>
   (schema_client_raises cl s \<longrightarrow> fst (get_schema cl s) = Inr (PList [])) \<and>
   (client_raises cl s q \<longrightarrow> fst (run_cypher_query cl q s) = Inr (PList [])) \<and>
   (connection_params args env = Inr p \<and> connect cl p w = (Inl e, w') \<longrightarrow>
      init cl args env w = (Inl e, w'))"
proof (cases s)
  case (Pair g w0)
  have 1: "\<not> isl (fst (list_labels cl (g, w0)))"
    by (simp add: list_labels_eval introspect_eval split: prod.splits sum.splits)
  have 2: "\<not> isl (fst (list_relationship_types cl (g, w0)))"
    by (simp add: list_relationship_types_eval introspect_eval split: prod.splits sum.splits)
  have 3: "\<not> isl (fst (get_schema cl (g, w0)))"
    by (auto simp add: get_schema_eval introspect_eval split: prod.splits sum.splits)
  have 4: "\<not> isl (fst (run_cypher_query cl q (g, w0)))"
    by (simp add: run_cypher_query_eval split: prod.splits sum.splits)
  have 5: "client_raises cl (g, w0) ''CALL db.labels()'' \<longrightarrow>
      fst (list_labels cl (g, w0)) = Inr (PList [])"
    by (auto simp add: client_raises_def list_labels_eval introspect_eval
        split: prod.splits sum.splits)
  have 6: "client_raises cl (g, w0) ''CALL db.relationshipTypes()'' \<longrightarrow>
      fst (list_relationship_types cl (g, w0)) = Inr (PList [])"
    by (auto simp add: client_raises_def list_relationship_types_eval introspect_eval
        split: prod.splits sum.splits)
  have 7: "schema_client_raises cl (g, w0) \<longrightarrow> fst (get_schema cl (g, w0)) = Inr (PList [])"
    by (auto simp add: schema_client_raises_def get_schema_eval introspect_eval
        split: prod.splits sum.splits)
  have 8: "client_raises cl (g, w0) q \<longrightarrow> fst (run_cypher_query cl q (g, w0)) = Inr (PList [])"
    by (auto simp add: client_raises_def run_cypher_query_eval split: prod.splits sum.splits)
  have 9: "connection_params args env = Inr p \<and> connect cl p w = (Inl e, w') \<longrightarrow>
      init cl args env w = (Inl e, w')"
    by (simp add: init_eval)
  from 1 2 3 4 5 6 7 8 9 Pair show ?thesis by simp
qed

lemma default_params: "connection_params default_args Map.empty = Inr local_params"
  by (simp add: connection_params_def default_args_def getenv_def local_params_def
      py_int_def strip_def is_space_def digit_val_def digit_count_def)

text \<open>A client whose every query fails, as in the unit tests, and a client that
  refuses the connection.\<close>

theorem operations_never_raise_witness:
  "client_raises (mock_client failing_db) (local_gateway, 0) ''CALL db.labels()'' \<and>
   list_labels (mock_client failing_db) (local_gateway, 0) = (Inr (PList []), (local_gateway, 1)) \<and>
   client_raises (mock_client failing_db) (local_gateway, 0) ''CALL db.relationshipTypes()'' \<and>
   list_relationship_types (mock_client failing_db) (local_gateway, 0)
     = (Inr (PList []), (local_gateway, 1)) \<and>
   schema_client_raises (mock_client failing_db) (local_gateway, 0) \<and>
   get_schema (mock_client failing_db) (local_gateway, 0) = (Inr (PList []), (local_gateway, 1)) \<and>
   client_raises (mock_client failing_db) (local_gateway, 0) ''INVALID QUERY'' \<and>
   run_cypher_query (mock_client failing_db) ''INVALID QUERY'' (local_gateway, 0)
     = (Inr (PList []), (local_gateway, 1)) \<and>
   connection_params default_args Map.empty = Inr local_params \<and>
   connect refusing_client local_params 0 = (Inl (ClientError ''Connection error''), 0) \<and>
   init refusing_client default_args Map.empty 0 = (Inl (ClientError ''Connection error''), 0)"
proof -
  have c: "connect refusing_client local_params 0 = (Inl (ClientError ''Connection error''), 0::nat)"
    by (simp add: mock_defs)
  have r1: "client_raises (mock_client failing_db) (local_gateway, 0) ''CALL db.labels()''"
    and r2: "client_raises (mock_client failing_db) (local_gateway, 0) ''CALL db.relationshipTypes()''"
    and r3: "schema_client_raises (mock_client failing_db) (local_gateway, 0)"
    and r4: "client_raises (mock_client failing_db) (local_gateway, 0) ''INVALID QUERY''"
    by (simp_all add: client_raises_def schema_client_raises_def mock_defs)
  note t = operations_never_raise [where cl = "mock_client failing_db"
      and s = "(local_gateway, 0)" and q = "''INVALID QUERY''"]
  note t' = operations_never_raise [where cl = refusing_client and args = default_args
      and env = Map.empty and p = local_params and w = 0
      and e = "ClientError ''Connection error''" and w' = 0]
  have w1: "snd (list_labels (mock_client failing_db) (local_gateway, 0)) = (local_gateway, 1)"
    and w2: "snd (list_relationship_types (mock_client failing_db) (local_gateway, 0)) = (local_gateway, 1)"
    and w3: "snd (get_schema (mock_client failing_db) (local_gateway, 0)) = (local_gateway, 1)"
    and w4: "snd (run_cypher_query (mock_client failing_db) ''INVALID QUERY'' (local_gateway, 0)) = (local_gateway, 1)"
    by (simp_all add: list_labels_eval list_relationship_types_eval get_schema_eval
        run_cypher_query_eval introspect_eval mock_defs)
  from t r1 r2 r3 r4 have
    "fst (list_labels (mock_client failing_db) (local_gateway, 0)) = Inr (PList [])"
    "fst (list_relationship_types (mock_client failing_db) (local_gateway, 0)) = Inr (PList [])"
    "fst (get_schema (mock_client failing_db) (local_gateway, 0)) = Inr (PList [])"
    "fst (run_cypher_query (mock_client failing_db) ''INVALID QUERY'' (local_gateway, 0)) = Inr (PList [])"
    by blast+
  moreover from t' default_params c
  have "init refusing_client default_args Map.empty 0 = (Inl (ClientError ''Connection error''), 0)"
    by blast
  ultimately show ?thesis
    using r1 r2 r3 r4 w1 w2 w3 w4 default_params c by (simp add: prod_eq_iff)
qed

subsection \<open>The schema\<close>

text \<open>
  Claim C6. In \<open>get_schema\<close>, once the graph is selected, an exception of the label
  query, or of the relationship-type query that follows a label query that returned,
  ends the operation with the empty list. In the second case the labels were already
  computed (they are what \<open>list_labels\<close> returns in the same state) and are dropped.
\<close>

theorem get_schema_aborts:
  assumes sel: "select_graph cl (db g) (graph_name g) w = (Inr graph, w1)"
  shows "(query cl graph ''CALL db.labels()'' w1 = (Inl e, w2) \<longrightarrow>
            get_schema cl (g, w) = (Inr (PList []), (g, w2))) \<and>
         (query cl graph ''CALL db.labels()'' w1 = (Inr lres, w2) \<and>
          query cl graph ''CALL db.relationshipTypes()'' w2 = (Inl e, w3) \<longrightarrow>
            fst (get_schema cl (g, w)) = Inr (PList []) \<and>
            ([] \<notin> set (result_set lres) \<longrightarrow>
               list_labels cl (g, w) = (Inr (PList (map hd (result_set lres))), (g, w2)) \<and>
               get_schema cl (g, w) = (Inr (PList []), (g, w3))))"
  using sel
  by (auto simp add: get_schema_eval list_labels_eval introspect_eval first_columns_cases)

text \<open>The label query answers \<open>[["Person"], ["Movie"]]\<close> and the
  relationship-type query raises; and every query raises.\<close>

theorem get_schema_aborts_witness:
  "select_graph (mock_client rel_failing_db) (db local_gateway) (graph_name local_gateway) 0
     = (Inr ''agno'', 0) \<and>
   query (mock_client rel_failing_db) ''agno'' ''CALL db.labels()'' 0
     = (Inr (rows_only [[PStr ''Person''], [PStr ''Movie'']]), 1) \<and>
   query (mock_client rel_failing_db) ''agno'' ''CALL db.relationshipTypes()'' 1
     = (Inl (ClientError ''Schema query failed''), 2) \<and>
   [] \<notin> set (result_set (rows_only [[PStr ''Person''], [PStr ''Movie'']])) \<and>
   list_labels (mock_client rel_failing_db) (local_gateway, 0)
     = (Inr (PList [PStr ''Person'', PStr ''Movie'']), (local_gateway, 1)) \<and>
   get_schema (mock_client rel_failing_db) (local_gateway, 0) = (Inr (PList []), (local_gateway, 2)) \<and>
   query (mock_client failing_db) ''agno'' ''CALL db.labels()'' 0
     = (Inl (ClientError ''Query failed''), 1) \<and>
   get_schema (mock_client failing_db) (local_gateway, 0) = (Inr (PList []), (local_gateway, 1))"
proof -
  have sel: "select_graph (mock_client rel_failing_db) (db local_gateway) (graph_name local_gateway) 0
     = (Inr ''agno'', 0::nat)"
    and sel': "select_graph (mock_client failing_db) (db local_gateway) (graph_name local_gateway) 0
     = (Inr ''agno'', 0::nat)"
    by (simp_all add: mock_defs)
  have ql: "query (mock_client rel_failing_db) ''agno'' ''CALL db.labels()'' 0
     = (Inr (rows_only [[PStr ''Person''], [PStr ''Movie'']]), 1)"
    and qr: "query (mock_client rel_failing_db) ''agno'' ''CALL db.relationshipTypes()'' 1
     = (Inl (ClientError ''Schema query failed''), 2)"
    and qf: "query (mock_client failing_db) ''agno'' ''CALL db.labels()'' 0
     = (Inl (ClientError ''Query failed''), 1)"
    by (simp_all add: mock_defs)
  have ne: "[] \<notin> set (result_set (rows_only [[PStr ''Person''], [PStr ''Movie'']]))"
    by (simp add: rows_only_def)
  from get_schema_aborts [OF sel, where lres = "rows_only [[PStr ''Person''], [PStr ''Movie'']]"
      and ?w2.0 = 1 and e = "ClientError ''Schema query failed''" and ?w3.0 = 2] ql qr ne
  have a: "list_labels (mock_client rel_failing_db) (local_gateway, 0)
       = (Inr (PList (map hd (result_set (rows_only [[PStr ''Person''], [PStr ''Movie'']])))), (local_gateway, 1))"
    and b: "get_schema (mock_client rel_failing_db) (local_gateway, 0) = (Inr (PList []), (local_gateway, 2))"
    by blast+
  from get_schema_aborts [OF sel', where e = "ClientError ''Query failed''" and ?w2.0 = 1] qf
  have c: "get_schema (mock_client failing_db) (local_gateway, 0) = (Inr (PList []), (local_gateway, 1))"
    by blast
  from a have a': "list_labels (mock_client rel_failing_db) (local_gateway, 0)
     = (Inr (PList [PStr ''Person'', PStr ''Movie'']), (local_gateway, 1))"
    by (simp add: rows_only_def)
  from sel ql qr ne a' b qf c show ?thesis by simp
qed

text \<open>
  Claim C4, as amended. When the graph is selected, both introspection queries return
  and every row of both results has at least one value, \<open>get_schema\<close> returns the
  one-element list \<open>[{"labels": L, "relationshipTypes": R}]\<close> where \<open>L\<close> is what
  \<open>list_labels\<close> returns and \<open>R\<close> is what \<open>list_relationship_types\<close> returns in
  that state. The label query may move the world on (from \<open>w1\<close> to \<open>w2\<close>); that the
  database is the same for both calls is the hypothesis that the relationship-type
  query has the same result before and after it.
\<close>

theorem schema_agrees_with_listings:
  assumes sel: "select_graph cl (db g) (graph_name g) w = (Inr graph, w1)"
    and lab: "query cl graph ''CALL db.labels()'' w1 = (Inr lres, w2)"
    and rel: "query cl graph ''CALL db.relationshipTypes()'' w2 = (Inr rres, w3)"
    and rel': "query cl graph ''CALL db.relationshipTypes()'' w1 = (Inr rres, w4)"
  shows "[] \<notin> set (result_set lres) \<and> [] \<notin> set (result_set rres) \<longrightarrow>
     list_labels cl (g, w) = (Inr (PList (map hd (result_set lres))), (g, w2)) \<and>
     list_relationship_types cl (g, w) = (Inr (PList (map hd (result_set rres))), (g, w4)) \<and>
     get_schema cl (g, w)
       = (Inr (PList [PDict [(''labels'', PList (map hd (result_set lres))),
                             (''relationshipTypes'', PList (map hd (result_set rres)))]]), (g, w3))"
  using sel lab rel rel'
  by (simp add: list_labels_eval list_relationship_types_eval get_schema_eval introspect_eval
      first_columns_cases)

text \<open>The database of the unit tests, behind a client whose world counts the queries:
  the label query moves it from \<open>0\<close> to \<open>1\<close>.\<close>

theorem schema_agrees_with_listings_witness:
  "select_graph (mock_client movie_db) (db local_gateway) (graph_name local_gateway) 0
     = (Inr ''agno'', 0) \<and>
   query (mock_client movie_db) ''agno'' ''CALL db.labels()'' 0
     = (Inr (rows_only [[PStr ''Person''], [PStr ''Movie'']]), 1) \<and>
   query (mock_client movie_db) ''agno'' ''CALL db.relationshipTypes()'' 1
     = (Inr (rows_only [[PStr ''ACTED_IN''], [PStr ''DIRECTED'']]), 2) \<and>
   query (mock_client movie_db) ''agno'' ''CALL db.relationshipTypes()'' 0
     = (Inr (rows_only [[PStr ''ACTED_IN''], [PStr ''DIRECTED'']]), 1) \<and>
   [] \<notin> set (result_set (rows_only [[PStr ''Person''], [PStr ''Movie'']])) \<and>
   [] \<notin> set (result_set (rows_only [[PStr ''ACTED_IN''], [PStr ''DIRECTED'']])) \<and>
   list_labels (mock_client movie_db) (local_gateway, 0)
     = (Inr (PList [PStr ''Person'', PStr ''Movie'']), (local_gateway, 1)) \<and>
   list_relationship_types (mock_client movie_db) (local_gateway, 0)
     = (Inr (PList [PStr ''ACTED_IN'', PStr ''DIRECTED'']), (local_gateway, 1)) \<and>
   get_schema (mock_client movie_db) (local_gateway, 0)
     = (Inr (PList [PDict [(''labels'', PList [PStr ''Person'', PStr ''Movie'']),
                           (''relationshipTypes'', PList [PStr ''ACTED_IN'', PStr ''DIRECTED''])]]),
        (local_gateway, 2))"
proof -
  have sel: "select_graph (mock_client movie_db) (db local_gateway) (graph_name local_gateway) 0
     = (Inr ''agno'', 0::nat)"
    by (simp add: mock_defs)
  have ql: "query (mock_client movie_db) ''agno'' ''CALL db.labels()'' 0
     = (Inr (rows_only [[PStr ''Person''], [PStr ''Movie'']]), 1)"
    and qr: "query (mock_client movie_db) ''agno'' ''CALL db.relationshipTypes()'' 1
     = (Inr (rows_only [[PStr ''ACTED_IN''], [PStr ''DIRECTED'']]), 2)"
    and qr': "query (mock_client movie_db) ''agno'' ''CALL db.relationshipTypes()'' 0
     = (Inr (rows_only [[PStr ''ACTED_IN''], [PStr ''DIRECTED'']]), 1)"
    by (simp_all add: mock_defs)
  have ne: "[] \<notin> set (result_set (rows_only [[PStr ''Person''], [PStr ''Movie'']]))"
    "[] \<notin> set (result_set (rows_only [[PStr ''ACTED_IN''], [PStr ''DIRECTED'']]))"
    by (simp_all add: rows_only_def)
  from schema_agrees_with_listings [OF sel ql qr qr'] ne sel ql qr qr'
  show ?thesis by (simp add: rows_only_def)
qed

text \<open>
  Claim C4 as stated asks only that both queries succeed. Here both do, the label query
  with the rows \<open>[["Person"], []]\<close>. Reading the first value of the empty row raises
  \<open>IndexError\<close>: \<open>list_labels\<close> returns \<open>[]\<close>, \<open>list_relationship_types\<close>
  returns \<open>["KNOWS"]\<close>, and \<open>get_schema\<close> returns \<open>[]\<close>, not the record built from
  those two results.
\<close>

theorem schema_agrees_with_listings_counterexample:
  "query (static_client ragged_db) ''agno'' ''CALL db.labels()'' 0
     = (Inr (rows_only [[PStr ''Person''], []]), 0) \<and>
   query (static_client ragged_db) ''agno'' ''CALL db.relationshipTypes()'' 0
     = (Inr (rows_only [[PStr ''KNOWS'']]), 0) \<and>
   list_labels (static_client ragged_db) (local_gateway, 0) = (Inr (PList []), (local_gateway, 0)) \<and>
   list_relationship_types (static_client ragged_db) (local_gateway, 0)
     = (Inr (PList [PStr ''KNOWS'']), (local_gateway, 0)) \<and>
   get_schema (static_client ragged_db) (local_gateway, 0) = (Inr (PList []), (local_gateway, 0)) \<and>
   fst (get_schema (static_client ragged_db) (local_gateway, 0))
     \<noteq> Inr (PList [PDict [(''labels'', PList []),
                            (''relationshipTypes'', PList [PStr ''KNOWS''])]])"
  by (simp add: list_labels_eval list_relationship_types_eval get_schema_eval introspect_eval
      getitem_0 mock_defs)

subsection \<open>Constructing an instance\<close>

text \<open>
  Claim C7. When the connection parameters are resolved and the client's constructor
  raises, \<open>__init__\<close> ends with that same exception and yields no instance. Every
  instance that is produced holds the handle of a connection that succeeded.
\<close>

theorem failed_connection_propagates:
  "(connection_params args env = Inr p \<and> connect cl p w = (Inl e, w') \<longrightarrow>
      init cl args env w = (Inl e, w')) \<and>
   (init cl args env w = (Inr g, w') \<longrightarrow>
      (\<exists>p. connection_params args env = Inr p \<and> connect cl p w = (Inr (db g), w')))"
  by (auto simp add: init_eval split: sum.splits prod.splits)

text \<open>A client that refuses the connection, and one that accepts it.\<close>

theorem failed_connection_propagates_witness:
  "connection_params default_args Map.empty = Inr local_params \<and>
   connect refusing_client local_params 0 = (Inl (ClientError ''Connection error''), 0) \<and>
   init refusing_client default_args Map.empty 0 = (Inl (ClientError ''Connection error''), 0) \<and>
   init (mock_client movie_db) default_args Map.empty 0 = (Inr local_gateway, 0) \<and>
   connect (mock_client movie_db) local_params 0 = (Inr (db local_gateway), 0)"
proof -
  have c: "connect refusing_client local_params 0 = (Inl (ClientError ''Connection error''), 0::nat)"
    by (simp add: mock_defs)
  have i: "init (mock_client movie_db) default_args Map.empty 0 = (Inr local_gateway, 0)"
    by (simp add: init_eval default_params)
      (simp add: mock_defs default_args_def getenv_def enabled_tools_def)
  from failed_connection_propagates [where cl = refusing_client and args = default_args
      and env = Map.empty and p = local_params and w = 0 and w' = 0
      and e = "ClientError ''Connection error''"] default_params c
  have r: "init refusing_client default_args Map.empty 0 = (Inl (ClientError ''Connection error''), 0)"
    by blast
  from failed_connection_propagates [where cl = "mock_client movie_db" and args = default_args
      and env = Map.empty and w = 0 and w' = 0 and g = local_gateway] i default_params
  have "connect (mock_client movie_db) local_params 0 = (Inr (db local_gateway), 0)"
    by auto
  with default_params c r i show ?thesis by simp
qed

lemma enabled_tools_mem: "t \<in> set (enabled_tools args) \<longleftrightarrow> (arg_all args \<or> tool_flag args t)"
  by (cases t) (auto simp add: enabled_tools_def)

lemma enabled_tools_distinct: "distinct (enabled_tools args)"
  by (simp add: enabled_tools_def)

lemma tools_not_read:
  "fst (list_labels cl (g\<lparr>tools := ts\<rparr>, w)) = fst (list_labels cl (g, w))"
  "fst (list_relationship_types cl (g\<lparr>tools := ts\<rparr>, w)) = fst (list_relationship_types cl (g, w))"
  "fst (get_schema cl (g\<lparr>tools := ts\<rparr>, w)) = fst (get_schema cl (g, w))"
  "fst (run_cypher_query cl q (g\<lparr>tools := ts\<rparr>, w)) = fst (run_cypher_query cl q (g, w))"
  by (auto simp add: list_labels_eval list_relationship_types_eval get_schema_eval
      run_cypher_query_eval introspect_eval split: prod.splits sum.splits)

text \<open>
  Claim C8. For an instance that construction produces, an operation is in the list
  handed to the registration host exactly when \<open>all\<close> is true or the operation's own
  flag is true, and no operation is listed twice. With \<open>all\<close> and the four flags false
  the list is empty; with \<open>all\<close> true it holds the four operations whatever the flags.
  What an operation returns does not depend on the list, so an operation that is not
  advertised can still be called.
\<close>

theorem advertised_tools:
  assumes "init cl args env w = (Inr g, w')"
  shows "(t \<in> set (tools g) \<longleftrightarrow> (arg_all args \<or> tool_flag args t)) \<and>
         distinct (tools g) \<and>
         (\<not> arg_all args \<and> \<not> enable_list_labels args \<and> \<not> enable_list_relationships args \<and>
          \<not> enable_get_schema args \<and> \<not> enable_run_cypher args \<longrightarrow> tools g = []) \<and>
         (arg_all args \<longrightarrow>
            tools g = [ListLabels, ListRelationshipTypes, GetSchema, RunCypherQuery]) \<and>
         fst (list_labels cl (g, w0)) = fst (list_labels cl (g\<lparr>tools := ts\<rparr>, w0)) \<and>
         fst (list_relationship_types cl (g, w0))
           = fst (list_relationship_types cl (g\<lparr>tools := ts\<rparr>, w0)) \<and>
         fst (get_schema cl (g, w0)) = fst (get_schema cl (g\<lparr>tools := ts\<rparr>, w0)) \<and>
         fst (run_cypher_query cl q (g, w0)) = fst (run_cypher_query cl q (g\<lparr>tools := ts\<rparr>, w0))"
proof -
  from assms have tg: "tools g = enabled_tools args"
    by (auto simp add: init_eval split: sum.splits prod.splits)
  have 1: "t \<in> set (tools g) \<longleftrightarrow> (arg_all args \<or> tool_flag args t)"
    by (simp add: tg enabled_tools_mem)
  have 2: "distinct (tools g)" by (simp add: tg enabled_tools_distinct)
  have 3: "\<not> arg_all args \<and> \<not> enable_list_labels args \<and> \<not> enable_list_relationships args \<and>
          \<not> enable_get_schema args \<and> \<not> enable_run_cypher args \<longrightarrow> tools g = []"
    by (simp add: tg enabled_tools_def)
  have 4: "arg_all args \<longrightarrow> tools g = [ListLabels, ListRelationshipTypes, GetSchema, RunCypherQuery]"
    by (simp add: tg enabled_tools_def)
  from 1 2 3 4 show ?thesis by (simp add: tools_not_read)
qed

text \<open>Every flag off: nothing is advertised and \<open>list_labels\<close> still answers.
  Every flag off and \<open>all=True\<close>: the four operations are advertised.\<close>

theorem advertised_tools_witness:
  "init (mock_client movie_db) no_tools_args Map.empty 0 = (Inr (local_gateway\<lparr>tools := []\<rparr>), 0) \<and>
   \<not> arg_all no_tools_args \<and> \<not> enable_list_labels no_tools_args \<and>
   \<not> enable_list_relationships no_tools_args \<and> \<not> enable_get_schema no_tools_args \<and>
   \<not> enable_run_cypher no_tools_args \<and>
   tools (local_gateway\<lparr>tools := []\<rparr>) = [] \<and>
   fst (list_labels (mock_client movie_db) (local_gateway\<lparr>tools := []\<rparr>, 0))
     = Inr (PList [PStr ''Person'', PStr ''Movie'']) \<and>
   init (mock_client movie_db) all_flag_args Map.empty 0 = (Inr local_gateway, 0) \<and>
   arg_all all_flag_args \<and> \<not> tool_flag all_flag_args GetSchema \<and>
   GetSchema \<in> set (tools local_gateway) \<and>
   tools local_gateway = [ListLabels, ListRelationshipTypes, GetSchema, RunCypherQuery]"
proof -
  have p0: "connection_params no_tools_args Map.empty = Inr local_params"
    and p1: "connection_params all_flag_args Map.empty = Inr local_params"
    by (simp_all add: connection_params_def arg_defs getenv_def local_params_def int_defs)
  have i0: "init (mock_client movie_db) no_tools_args Map.empty 0
      = (Inr (local_gateway\<lparr>tools := []\<rparr>), 0)"
    by (simp add: init_eval p0) (simp add: mock_defs arg_defs getenv_def enabled_tools_def)
  have i1: "init (mock_client movie_db) all_flag_args Map.empty 0 = (Inr local_gateway, 0)"
    by (simp add: init_eval p1) (simp add: mock_defs arg_defs getenv_def enabled_tools_def)
  have f0: "\<not> arg_all no_tools_args \<and> \<not> enable_list_labels no_tools_args \<and>
     \<not> enable_list_relationships no_tools_args \<and> \<not> enable_get_schema no_tools_args \<and>
     \<not> enable_run_cypher no_tools_args"
    and f1: "arg_all all_flag_args" "\<not> tool_flag all_flag_args GetSchema"
    by (simp_all add: arg_defs)
  have l: "fst (list_labels (mock_client movie_db) (local_gateway, 0))
     = Inr (PList [PStr ''Person'', PStr ''Movie''])"
    by (simp add: list_labels_eval introspect_eval getitem_0 mock_defs)
  note a0 = advertised_tools [OF i0, where ?w0.0 = 0
      and ts = "[ListLabels, ListRelationshipTypes, GetSchema, RunCypherQuery]"]
  note a1 = advertised_tools [OF i1, where t = GetSchema]
  have same: "local_gateway\<lparr>tools := [], tools := [ListLabels, ListRelationshipTypes, GetSchema, RunCypherQuery]\<rparr>
      = local_gateway"
    by (simp add: local_gateway_def)
  from a0 f0 have e0: "tools (local_gateway\<lparr>tools := []\<rparr>) = []" by blast
  from a0 have "fst (list_labels (mock_client movie_db) (local_gateway\<lparr>tools := []\<rparr>, 0))
      = fst (list_labels (mock_client movie_db)
          (local_gateway\<lparr>tools := [], tools := [ListLabels, ListRelationshipTypes, GetSchema, RunCypherQuery]\<rparr>, 0))"
    by blast
  with same l have d0: "fst (list_labels (mock_client movie_db) (local_gateway\<lparr>tools := []\<rparr>, 0))
     = Inr (PList [PStr ''Person'', PStr ''Movie''])"
    by simp
  from a1 f1 have m1: "GetSchema \<in> set (tools local_gateway)"
    and t1: "tools local_gateway = [ListLabels, ListRelationshipTypes, GetSchema, RunCypherQuery]"
    by blast+
  from i0 f0 e0 d0 i1 f1 m1 t1 show ?thesis by blast
qed







subsection \<open>Running a query\<close>

lemma convert_result_records:
  assumes "header res = Some hdr" "hdr \<noteq> []"
    and "\<forall>row\<in>set (result_set res). length hdr \<le> length row"
  shows "\<exists>recs. convert_result res = Inr (PList (map PDict recs)) \<and>
     length recs = length (result_set res) \<and>
     (\<forall>i<length (result_set res).
        map_of (recs ! i) = [hdr [\<mapsto>] result_set res ! i] \<and>
        set (map fst (recs ! i)) = set hdr \<and>
        distinct (map fst (recs ! i)) \<and>
        (distinct hdr \<longrightarrow> recs ! i = zip hdr (result_set res ! i)))"
proof -
  from data_loop_ok [OF assms(3), of "[]"] obtain recs where
    "data_loop hdr (result_set res) [] = Inr ([] @ map PDict recs)"
    and r: "length recs = length (result_set res) \<and>
     (\<forall>i<length (result_set res).
        map_of (recs ! i) = [hdr [\<mapsto>] result_set res ! i] \<and>
        set (map fst (recs ! i)) = set hdr \<and>
        distinct (map fst (recs ! i)) \<and>
        (distinct hdr \<longrightarrow> recs ! i = zip hdr (result_set res ! i)))"
    by blast
  then have "convert_result res = Inr (PList (map PDict recs))"
    using assms(1,2) by (simp add: convert_result_def)
  with r show ?thesis by blast
qed

lemma convert_result_short:
  assumes "header res = Some hdr"
    and "\<exists>row\<in>set (result_set res). length row < length hdr"
  shows "convert_result res = Inl IndexError"
proof -
  from assms(2) have "hdr \<noteq> []" by auto
  with assms(1) data_loop_short [OF assms(2), of "[]"] show ?thesis
    by (simp add: convert_result_def)
qed

lemma convert_result_raw:
  "header res = None \<or> header res = Some [] \<Longrightarrow>
   convert_result res = Inr (PList (map PList (result_set res)))"
  by (auto simp add: convert_result_def)

lemma upds_take: "m(xs [\<mapsto>] take (length xs) ys) = m(xs [\<mapsto>] ys)"
proof -
  have "zip xs (take (length xs) ys) = zip xs ys"
  proof (induction xs arbitrary: ys)
    case Nil
    show ?case by simp
  next
    case (Cons a xs)
    show ?case using Cons.IH by (cases ys) simp_all
  qed
  then show ?thesis by (simp add: map_upds_def)
qed

lemmas run_defs = run_cypher_query_eval convert_result_def getitem_def

lemma two_elems: "length xs = Suc (Suc 0) \<Longrightarrow> xs = [xs ! 0, xs ! Suc 0]"
  by (auto simp add: length_Suc_conv)

text \<open>
  Claim C1, as amended. When the graph is selected and the query returns: if the
  result has a non-empty header and every row has at least as many values as the header
  has names, \<open>run_cypher_query\<close> returns one record per row, in row order, that maps
  each header name to the row value at the name's position (a name that occurs twice
  keeps the value of its last position; for distinct names the record is the header
  zipped with the row). If the header is \<open>None\<close> or empty, the rows are returned as
  they are.
\<close>

theorem run_query_records:
  assumes sel: "select_graph cl (db g) (graph_name g) w = (Inr graph, w1)"
    and qry: "query cl graph q w1 = (Inr res, w2)"
  shows "(header res = Some hdr \<and> hdr \<noteq> [] \<and>
          (\<forall>row\<in>set (result_set res). length hdr \<le> length row) \<longrightarrow>
            (\<exists>recs. run_cypher_query cl q (g, w) = (Inr (PList (map PDict recs)), (g, w2)) \<and>
               length recs = length (result_set res) \<and>
               (\<forall>i<length (result_set res).
                  map_of (recs ! i) = [hdr [\<mapsto>] result_set res ! i] \<and>
                  (distinct hdr \<longrightarrow> recs ! i = zip hdr (result_set res ! i))))) \<and>
         (header res = None \<or> header res = Some [] \<longrightarrow>
            run_cypher_query cl q (g, w) = (Inr (PList (map PList (result_set res))), (g, w2)))"
proof (intro conjI impI)
  assume a: "header res = Some hdr \<and> hdr \<noteq> [] \<and>
          (\<forall>row\<in>set (result_set res). length hdr \<le> length row)"
  then obtain recs where c: "convert_result res = Inr (PList (map PDict recs))"
    and r: "length recs = length (result_set res)"
      "\<forall>i<length (result_set res).
        map_of (recs ! i) = [hdr [\<mapsto>] result_set res ! i] \<and>
        set (map fst (recs ! i)) = set hdr \<and>
        distinct (map fst (recs ! i)) \<and>
        (distinct hdr \<longrightarrow> recs ! i = zip hdr (result_set res ! i))"
    using convert_result_records [of res hdr] by blast
  from sel qry c have "run_cypher_query cl q (g, w) = (Inr (PList (map PDict recs)), (g, w2))"
    by (simp add: run_cypher_query_eval)
  with r show "\<exists>recs. run_cypher_query cl q (g, w) = (Inr (PList (map PDict recs)), (g, w2)) \<and>
               length recs = length (result_set res) \<and>
               (\<forall>i<length (result_set res).
                  map_of (recs ! i) = [hdr [\<mapsto>] result_set res ! i] \<and>
                  (distinct hdr \<longrightarrow> recs ! i = zip hdr (result_set res ! i)))"
    by blast
next
  assume "header res = None \<or> header res = Some []"
  from convert_result_raw [OF this] sel qry
  show "run_cypher_query cl q (g, w) = (Inr (PList (map PList (result_set res))), (g, w2))"
    by (simp add: run_cypher_query_eval)
qed

text \<open>The two results of the unit tests: header \<open>["name", "age"]\<close> with two rows,
  and three rows with no header.\<close>

theorem run_query_records_witness:
  "select_graph (mock_client movie_db) (db local_gateway) (graph_name local_gateway) 0
     = (Inr ''agno'', 0) \<and>
   query (mock_client movie_db) ''agno'' ''MATCH (p:Person) RETURN p.name as name, p.age as age'' 0
     = (Inr \<lparr>header = Some [''name'', ''age''],
             result_set = [[PStr ''John'', PInt 30], [PStr ''Jane'', PInt 25]]\<rparr>, 1) \<and>
   list_all (\<lambda>row. length [''name'', ''age''] \<le> length row)
     [[PStr ''John'', PInt 30], [PStr ''Jane'', PInt 25]] \<and>
   run_cypher_query (mock_client movie_db)
       ''MATCH (p:Person) RETURN p.name as name, p.age as age'' (local_gateway, 0)
     = (Inr (PList [PDict [(''name'', PStr ''John''), (''age'', PInt 30)],
                    PDict [(''name'', PStr ''Jane''), (''age'', PInt 25)]]), (local_gateway, 1)) \<and>
   query (mock_client count_db) ''agno'' ''MATCH (n) RETURN count(n)'' 0
     = (Inr \<lparr>header = None, result_set = [[PInt 1], [PInt 2], [PInt 3]]\<rparr>, 1) \<and>
   run_cypher_query (mock_client count_db) ''MATCH (n) RETURN count(n)'' (local_gateway, 0)
     = (Inr (PList [PList [PInt 1], PList [PInt 2], PList [PInt 3]]), (local_gateway, 1))"
proof -
  let ?q = "''MATCH (p:Person) RETURN p.name as name, p.age as age''"
  let ?res = "\<lparr>header = Some [''name'', ''age''],
             result_set = [[PStr ''John'', PInt 30], [PStr ''Jane'', PInt 25]]\<rparr>"
  let ?raw = "\<lparr>header = None, result_set = [[PInt 1], [PInt 2], [PInt 3]]\<rparr>"
  have sel: "select_graph (mock_client movie_db) (db local_gateway) (graph_name local_gateway) 0
     = (Inr ''agno'', 0::nat)"
    and sel': "select_graph (mock_client count_db) (db local_gateway) (graph_name local_gateway) 0
     = (Inr ''agno'', 0::nat)"
    by (simp_all add: mock_defs)
  have q1: "query (mock_client movie_db) ''agno'' ?q 0 = (Inr ?res, 1)"
    and q2: "query (mock_client count_db) ''agno'' ''MATCH (n) RETURN count(n)'' 0 = (Inr ?raw, 1)"
    by (simp_all add: mock_defs)
  have long: "\<forall>row\<in>set (result_set ?res). length [''name'', ''age''] \<le> length row"
    by simp
  from run_query_records [OF sel q1, where hdr = "[''name'', ''age'']"] long
  obtain recs where run: "run_cypher_query (mock_client movie_db) ?q (local_gateway, 0)
       = (Inr (PList (map PDict recs)), (local_gateway, 1))"
    and len: "length recs = length (result_set ?res)"
    and each: "\<forall>i<length (result_set ?res).
        map_of (recs ! i) = [[''name'', ''age''] [\<mapsto>] result_set ?res ! i] \<and>
        (distinct [''name'', ''age''] \<longrightarrow> recs ! i = zip [''name'', ''age''] (result_set ?res ! i))"
    by auto
  from len have "recs = [recs ! 0, recs ! Suc 0]" by (intro two_elems) simp
  moreover from each [rule_format, of 0]
  have "recs ! 0 = [(''name'', PStr ''John''), (''age'', PInt 30)]" by simp
  moreover from each [rule_format, of "Suc 0"]
  have "recs ! Suc 0 = [(''name'', PStr ''Jane''), (''age'', PInt 25)]" by simp
  ultimately have recs: "recs = [[(''name'', PStr ''John''), (''age'', PInt 30)],
      [(''name'', PStr ''Jane''), (''age'', PInt 25)]]"
    by simp
  from run_query_records [OF sel' q2]
  have raw: "run_cypher_query (mock_client count_db) ''MATCH (n) RETURN count(n)'' (local_gateway, 0)
     = (Inr (PList (map PList (result_set ?raw))), (local_gateway, 1))"
    by simp
  from sel q1 q2 run recs raw show ?thesis by simp
qed

text \<open>
  Claim C1 as stated speaks of every result with a header. With header
  \<open>["name", "age"]\<close> and rows \<open>[["John", 30], ["Jane"]]\<close> the second row has no value
  for \<open>age\<close>; the lookup raises \<open>IndexError\<close> and the call returns no record at all
  for the two rows.
\<close>

theorem run_query_records_counterexample:
  "query (mock_client ragged_db) ''agno'' ''MATCH (p:Person) RETURN p.name as name, p.age as age'' 0
     = (Inr \<lparr>header = Some [''name'', ''age''],
             result_set = [[PStr ''John'', PInt 30], [PStr ''Jane'']]\<rparr>, 1) \<and>
   run_cypher_query (mock_client ragged_db)
       ''MATCH (p:Person) RETURN p.name as name, p.age as age'' (local_gateway, 0)
     = (Inr (PList []), (local_gateway, 1)) \<and>
   length ([] :: pyval list) \<noteq> length [[PStr ''John'', PInt 30], [PStr ''Jane'']]"
  by (simp add: run_defs mock_defs)

text \<open>
  Claim C9, as amended. With a non-empty header of \<open>h\<close> names: if some row has fewer
  than \<open>h\<close> values, the whole call returns the empty list; if every row has at least
  \<open>h\<close> values, there is one record per row whose keys are exactly the names that occur
  in the header, each once (the \<open>h\<close> names in header order when they are distinct), and
  whose values come from the first \<open>h\<close> values of the row only.
\<close>

theorem run_query_row_lengths:
  assumes sel: "select_graph cl (db g) (graph_name g) w = (Inr graph, w1)"
    and qry: "query cl graph q w1 = (Inr res, w2)"
    and hdr: "header res = Some hdr" "hdr \<noteq> []"
  shows "((\<exists>row\<in>set (result_set res). length row < length hdr) \<longrightarrow>
            run_cypher_query cl q (g, w) = (Inr (PList []), (g, w2))) \<and>
         ((\<forall>row\<in>set (result_set res). length hdr \<le> length row) \<longrightarrow>
            (\<exists>recs. run_cypher_query cl q (g, w) = (Inr (PList (map PDict recs)), (g, w2)) \<and>
               length recs = length (result_set res) \<and>
               (\<forall>i<length (result_set res).
                  set (map fst (recs ! i)) = set hdr \<and>
                  distinct (map fst (recs ! i)) \<and>
                  (distinct hdr \<longrightarrow> map fst (recs ! i) = hdr) \<and>
                  map_of (recs ! i) = [hdr [\<mapsto>] take (length hdr) (result_set res ! i)])))"
proof (intro conjI impI)
  assume "\<exists>row\<in>set (result_set res). length row < length hdr"
  from convert_result_short [OF hdr(1) this] sel qry
  show "run_cypher_query cl q (g, w) = (Inr (PList []), (g, w2))"
    by (simp add: run_cypher_query_eval)
next
  assume a: "\<forall>row\<in>set (result_set res). length hdr \<le> length row"
  from convert_result_records [OF hdr a]
  obtain recs where c: "convert_result res = Inr (PList (map PDict recs))"
    and l: "length recs = length (result_set res)"
    and r: "\<forall>i<length (result_set res).
        map_of (recs ! i) = [hdr [\<mapsto>] result_set res ! i] \<and>
        set (map fst (recs ! i)) = set hdr \<and>
        distinct (map fst (recs ! i)) \<and>
        (distinct hdr \<longrightarrow> recs ! i = zip hdr (result_set res ! i))"
    by blast
  have "\<forall>i<length (result_set res).
                  set (map fst (recs ! i)) = set hdr \<and>
                  distinct (map fst (recs ! i)) \<and>
                  (distinct hdr \<longrightarrow> map fst (recs ! i) = hdr) \<and>
                  map_of (recs ! i) = [hdr [\<mapsto>] take (length hdr) (result_set res ! i)]"
  proof (intro allI impI)
    fix i assume i: "i < length (result_set res)"
    then have len: "length hdr \<le> length (result_set res ! i)" using a by simp
    have "distinct hdr \<longrightarrow> map fst (recs ! i) = hdr"
    proof
      assume "distinct hdr"
      with r i have "recs ! i = zip hdr (result_set res ! i)" by blast
      then show "map fst (recs ! i) = hdr" using len by (simp add: map_fst_zip_take)
    qed
    with r i show "set (map fst (recs ! i)) = set hdr \<and>
                  distinct (map fst (recs ! i)) \<and>
                  (distinct hdr \<longrightarrow> map fst (recs ! i) = hdr) \<and>
                  map_of (recs ! i) = [hdr [\<mapsto>] take (length hdr) (result_set res ! i)]"
      by (simp add: upds_take)
  qed
  moreover from sel qry c
  have "run_cypher_query cl q (g, w) = (Inr (PList (map PDict recs)), (g, w2))"
    by (simp add: run_cypher_query_eval)
  ultimately show "\<exists>recs. run_cypher_query cl q (g, w) = (Inr (PList (map PDict recs)), (g, w2)) \<and>
               length recs = length (result_set res) \<and>
               (\<forall>i<length (result_set res).
                  set (map fst (recs ! i)) = set hdr \<and>
                  distinct (map fst (recs ! i)) \<and>
                  (distinct hdr \<longrightarrow> map fst (recs ! i) = hdr) \<and>
                  map_of (recs ! i) = [hdr [\<mapsto>] take (length hdr) (result_set res ! i)])"
    using l by blast
qed

text \<open>A row that is too short discards the well-formed row before it; a third value
  in a row is dropped.\<close>

theorem run_query_row_lengths_witness:
  "select_graph (mock_client ragged_db) (db local_gateway) (graph_name local_gateway) 0
     = (Inr ''agno'', 0) \<and>
   query (mock_client ragged_db) ''agno'' ''MATCH (p) RETURN p.name, p.age'' 0
     = (Inr \<lparr>header = Some [''name'', ''age''],
             result_set = [[PStr ''John'', PInt 30], [PStr ''Jane'']]\<rparr>, 1) \<and>
   length [PStr ''Jane''] < length [''name'', ''age''] \<and>
   run_cypher_query (mock_client ragged_db) ''MATCH (p) RETURN p.name, p.age'' (local_gateway, 0)
     = (Inr (PList []), (local_gateway, 1)) \<and>
   query (mock_client wide_db) ''agno'' ''MATCH (p) RETURN p.name, p.age'' 0
     = (Inr \<lparr>header = Some [''name'', ''age''],
             result_set = [[PStr ''John'', PInt 30, PBool True], [PStr ''Jane'', PInt 25]]\<rparr>, 1) \<and>
   list_all (\<lambda>row. length [''name'', ''age''] \<le> length row)
     [[PStr ''John'', PInt 30, PBool True], [PStr ''Jane'', PInt 25]] \<and>
   run_cypher_query (mock_client wide_db) ''MATCH (p) RETURN p.name, p.age'' (local_gateway, 0)
     = (Inr (PList [PDict [(''name'', PStr ''John''), (''age'', PInt 30)],
                    PDict [(''name'', PStr ''Jane''), (''age'', PInt 25)]]), (local_gateway, 1)) \<and>
   map fst [(''name'', PStr ''John''), (''age'', PInt 30)] = [''name'', ''age''] \<and>
   map_of [(''name'', PStr ''John''), (''age'', PInt 30)]
     = [[''name'', ''age''] [\<mapsto>] take 2 [PStr ''John'', PInt 30, PBool True]]"
proof -
  let ?q = "''MATCH (p) RETURN p.name, p.age''"
  let ?short = "\<lparr>header = Some [''name'', ''age''],
             result_set = [[PStr ''John'', PInt 30], [PStr ''Jane'']]\<rparr>"
  let ?wide = "\<lparr>header = Some [''name'', ''age''],
             result_set = [[PStr ''John'', PInt 30, PBool True], [PStr ''Jane'', PInt 25]]\<rparr>"
  have sel: "select_graph (mock_client ragged_db) (db local_gateway) (graph_name local_gateway) 0
     = (Inr ''agno'', 0::nat)"
    and sel': "select_graph (mock_client wide_db) (db local_gateway) (graph_name local_gateway) 0
     = (Inr ''agno'', 0::nat)"
    by (simp_all add: mock_defs)
  have q1: "query (mock_client ragged_db) ''agno'' ?q 0 = (Inr ?short, 1)"
    and q2: "query (mock_client wide_db) ''agno'' ?q 0 = (Inr ?wide, 1)"
    by (simp_all add: mock_defs)
  have short: "\<exists>row\<in>set (result_set ?short). length row < length [''name'', ''age'']"
    and long: "\<forall>row\<in>set (result_set ?wide). length [''name'', ''age''] \<le> length row"
    by simp_all
  from run_query_row_lengths [OF sel q1, of "[''name'', ''age'']"] short
  have r1: "run_cypher_query (mock_client ragged_db) ?q (local_gateway, 0)
     = (Inr (PList []), (local_gateway, 1))"
    by simp
  from run_query_row_lengths [OF sel' q2, of "[''name'', ''age'']"] long
  obtain recs where run: "run_cypher_query (mock_client wide_db) ?q (local_gateway, 0)
       = (Inr (PList (map PDict recs)), (local_gateway, 1))"
    and each: "\<forall>i<length (result_set ?wide).
        set (map fst (recs ! i)) = set [''name'', ''age''] \<and>
        distinct (map fst (recs ! i)) \<and>
        (distinct [''name'', ''age''] \<longrightarrow> map fst (recs ! i) = [''name'', ''age'']) \<and>
        map_of (recs ! i) = [[''name'', ''age''] [\<mapsto>] take (length [''name'', ''age'']) (result_set ?wide ! i)]"
    by auto
  have ev: "run_cypher_query (mock_client wide_db) ?q (local_gateway, 0)
     = (Inr (PList (map PDict [[(''name'', PStr ''John''), (''age'', PInt 30)],
                    [(''name'', PStr ''Jane''), (''age'', PInt 25)]])), (local_gateway, 1))"
    by (simp add: run_defs mock_defs)
  with run have recs: "recs = [[(''name'', PStr ''John''), (''age'', PInt 30)],
                    [(''name'', PStr ''Jane''), (''age'', PInt 25)]]"
    by (auto simp add: Cons_eq_map_conv)
  from each [rule_format, of 0] recs
  have k: "map fst [(''name'', PStr ''John''), (''age'', PInt 30)] = [''name'', ''age'']"
    and m: "map_of [(''name'', PStr ''John''), (''age'', PInt 30)]
     = [[''name'', ''age''] [\<mapsto>] take 2 [PStr ''John'', PInt 30, PBool True]]"
    by simp_all
  from sel q1 q2 r1 run recs k m show ?thesis by simp
qed

text \<open>
  Claim C9 as stated covers every header length and promises \<open>h\<close> keys. With the
  empty header (\<open>h = 0\<close>) every row is long enough, and the call returns the rows as
  lists, not records without keys. With the header \<open>["a", "b", "a"]\<close> (\<open>h = 3\<close>) and
  the row \<open>[1, 2, 3]\<close> the record has the two keys \<open>a\<close> and \<open>b\<close>.
\<close>

theorem run_query_row_lengths_counterexample:
  "query (mock_client empty_header_db) ''agno'' ''MATCH (n) RETURN n'' 0
     = (Inr \<lparr>header = Some [], result_set = [[PInt 1], [PInt 2]]\<rparr>, 1) \<and>
   list_all (\<lambda>row. length ([] :: string list) \<le> length row) [[PInt 1], [PInt 2]] \<and>
   run_cypher_query (mock_client empty_header_db) ''MATCH (n) RETURN n'' (local_gateway, 0)
     = (Inr (PList [PList [PInt 1], PList [PInt 2]]), (local_gateway, 1)) \<and>
   PList [PInt 1] \<noteq> PDict [] \<and>
   query (mock_client repeated_name_db) ''agno'' ''MATCH (n) RETURN n'' 0
     = (Inr \<lparr>header = Some [''a'', ''b'', ''a''], result_set = [[PInt 1, PInt 2, PInt 3]]\<rparr>, 1) \<and>
   list_all (\<lambda>row. length [''a'', ''b'', ''a''] \<le> length row) [[PInt 1, PInt 2, PInt 3]] \<and>
   run_cypher_query (mock_client repeated_name_db) ''MATCH (n) RETURN n'' (local_gateway, 0)
     = (Inr (PList [PDict [(''a'', PInt 3), (''b'', PInt 2)]]), (local_gateway, 1)) \<and>
   length [(''a'', PInt 3), (''b'', PInt 2)] \<noteq> length [''a'', ''b'', ''a'']"
  by (simp add: run_defs mock_defs)

end
